theory Spec2Isabelle
  imports Main "HOL-Library.Word"
begin

unbundle bit_operations_syntax

section \<open>Platform types and constants\<close>

text \<open>
  The shell file-system folder (\<open>CFSFolder\<close>, \<open>CFileSysEnum\<close> and their helpers) works on
  Win32 scalar types. \<open>DWORD\<close>, \<open>ULONG\<close> and \<open>HRESULT\<close> are 32-bit, \<open>WORD\<close> is 16-bit and a
  type tag is one byte. Wide strings are modelled as \<open>string\<close>; a C string ends at its first
  NUL, so the lists here never contain it.
\<close>

type_synonym DWORD = "32 word"
type_synonym WORD = "16 word"
type_synonym HRESULT = "32 word"

text \<open>
  Modelled from the spec: the header constants below (\<open>winerror.h\<close>, \<open>winnt.h\<close>, \<open>shobjidl.h\<close>,
  \<open>shlobj.h\<close> and shell32's \<open>pidl.h\<close>) are used by the folder code but declared outside it.
  The spec names them (InvalidArgument, OperationFailed, the capability bits copy, move,
  link, rename, delete, has-property-sheet, is-drop-target, is-filesystem-member,
  is-container, has-subfolder, is-filesystem-ancestor, is-storage-ancestor, is-storage,
  is-stream, hidden, read-only, requires-validation; the content-mask bits folders,
  non-folders, hidden; the kinds Folder, File, Drive-root); the numeric values are the ones
  the platform headers give them.
\<close>

definition S_OK :: HRESULT where "S_OK = 0"
definition S_FALSE :: HRESULT where "S_FALSE = 1"
definition E_INVALIDARG :: HRESULT where "E_INVALIDARG = 0x80070057"
definition E_FAIL :: HRESULT where "E_FAIL = 0x80004005"

definition SUCCEEDED :: "HRESULT \<Rightarrow> bool" where
  "SUCCEEDED hr = (0 \<le> sint hr)"

definition FAILED :: "HRESULT \<Rightarrow> bool" where
  "FAILED hr = (sint hr < 0)"

definition MAX_PATH :: nat where "MAX_PATH = 260"

definition ERROR_NO_MORE_FILES :: DWORD where "ERROR_NO_MORE_FILES = 18"

definition FILE_ATTRIBUTE_READONLY :: DWORD where "FILE_ATTRIBUTE_READONLY = 0x1"
definition FILE_ATTRIBUTE_HIDDEN :: DWORD where "FILE_ATTRIBUTE_HIDDEN = 0x2"
definition FILE_ATTRIBUTE_DIRECTORY :: DWORD where "FILE_ATTRIBUTE_DIRECTORY = 0x10"

definition SHCONTF_FOLDERS :: DWORD where "SHCONTF_FOLDERS = 0x20"
definition SHCONTF_NONFOLDERS :: DWORD where "SHCONTF_NONFOLDERS = 0x40"
definition SHCONTF_INCLUDEHIDDEN :: DWORD where "SHCONTF_INCLUDEHIDDEN = 0x80"

definition SHGDN_NORMAL :: DWORD where "SHGDN_NORMAL = 0"
definition SHGDN_INFOLDER :: DWORD where "SHGDN_INFOLDER = 0x1"
definition SHGDN_FOREDITING :: DWORD where "SHGDN_FOREDITING = 0x1000"
definition SHGDN_FORPARSING :: DWORD where "SHGDN_FORPARSING = 0x8000"

definition SHCNE_RENAMEITEM :: DWORD where "SHCNE_RENAMEITEM = 0x1"
definition SHCNE_RENAMEFOLDER :: DWORD where "SHCNE_RENAMEFOLDER = 0x20000"

definition SFGAO_CANCOPY :: DWORD where "SFGAO_CANCOPY = 0x1"
definition SFGAO_CANMOVE :: DWORD where "SFGAO_CANMOVE = 0x2"
definition SFGAO_CANLINK :: DWORD where "SFGAO_CANLINK = 0x4"
definition SFGAO_STORAGE :: DWORD where "SFGAO_STORAGE = 0x8"
definition SFGAO_CANRENAME :: DWORD where "SFGAO_CANRENAME = 0x10"
definition SFGAO_CANDELETE :: DWORD where "SFGAO_CANDELETE = 0x20"
definition SFGAO_HASPROPSHEET :: DWORD where "SFGAO_HASPROPSHEET = 0x40"
definition SFGAO_DROPTARGET :: DWORD where "SFGAO_DROPTARGET = 0x100"
definition SFGAO_LINK :: DWORD where "SFGAO_LINK = 0x10000"
definition SFGAO_READONLY :: DWORD where "SFGAO_READONLY = 0x40000"
definition SFGAO_HIDDEN :: DWORD where "SFGAO_HIDDEN = 0x80000"
definition SFGAO_STREAM :: DWORD where "SFGAO_STREAM = 0x400000"
definition SFGAO_STORAGEANCESTOR :: DWORD where "SFGAO_STORAGEANCESTOR = 0x800000"
definition SFGAO_VALIDATE :: DWORD where "SFGAO_VALIDATE = 0x1000000"
definition SFGAO_FILESYSANCESTOR :: DWORD where "SFGAO_FILESYSANCESTOR = 0x10000000"
definition SFGAO_FOLDER :: DWORD where "SFGAO_FOLDER = 0x20000000"
definition SFGAO_FILESYSTEM :: DWORD where "SFGAO_FILESYSTEM = 0x40000000"
definition SFGAO_HASSUBFOLDER :: DWORD where "SFGAO_HASSUBFOLDER = 0x80000000"

definition PT_DRIVE :: "8 word" where "PT_DRIVE = 0x23"
definition PT_DRIVE2 :: "8 word" where "PT_DRIVE2 = 0x25"
definition PT_DRIVE3 :: "8 word" where "PT_DRIVE3 = 0x29"
definition PT_DRIVE1 :: "8 word" where "PT_DRIVE1 = 0x2F"
definition PT_FOLDER1 :: "8 word" where "PT_FOLDER1 = 0x30"
definition PT_FOLDER :: "8 word" where "PT_FOLDER = 0x31"
definition PT_VALUE :: "8 word" where "PT_VALUE = 0x32"

section \<open>Item identifiers\<close>

text \<open>
  One \<open>SHITEMID\<close>. \<open>ptype\<close> is the type byte \<open>mkid.abID[0]\<close>; the next four fields are the
  \<open>FileStruct\<close> of a file-system item (\<open>u.file\<close>), \<open>szNames\<close> its narrow long name, and
  \<open>wszName\<close> the name of the trailing \<open>FileStructW\<close>, \<open>None\<close> when the item carries no
  well-formed one. An \<open>ITEMIDLIST\<close> is the list of its items up to the zero terminator, so
  the empty list is the empty pidl; a pointer that may be \<open>NULL\<close> is a \<open>pidl option\<close>.
\<close>

record item =
  ptype :: "8 word"
  dwFileSize :: DWORD
  uFileDate :: WORD
  uFileTime :: WORD
  uFileAttribs :: WORD
  szNames :: string
  wszName :: "string option"

type_synonym pidl = "item list"

text \<open>\<open>WIN32_FIND_DATAW\<close>, the fields the folder code reads.\<close>

record find_data =
  dwFileAttributes :: DWORD
  ftLastWriteTime :: "64 word"
  nFileSizeLow :: DWORD
  cFileName :: string

text \<open>
  An open find handle: the entries that the following \<open>FindNextFileW\<close> calls deliver, in
  order, and what \<open>GetLastError\<close> reports once they are used up.
\<close>

datatype find_handle = FindHandle (pending: "find_data list") (final_error: DWORD)

text \<open>
  What \<open>IBindCtx::GetObjectParam(STR_FILE_SYS_BIND_DATA)\<close> yields: failure, an object without
  \<open>IFileSystemBindData\<close>, or bind data whose \<open>GetFindData\<close> returns an \<open>HRESULT\<close> and a record.
\<close>

datatype bind_param = ParamMissing | ParamNotBindData | BindData HRESULT find_data

text \<open>A bind context (\<open>IBindCtx\<close>) as far as the file-system folder looks into it.\<close>

record bind_ctx =
  GetObjectParam :: bind_param

section \<open>External collaborators\<close>

text \<open>
  Everything the folder calls outside itself: the heap, the file system, the registry,
  \<open>shlwapi\<close> path joining, and other shell folders. Each field is one such call, as a
  function of its inputs. \<open>FindFirstFileW\<close> yields the first record and the open handle,
  or (\<open>Inl\<close>) the error code behind \<open>INVALID_HANDLE_VALUE\<close>. The last three fields are
  the calls of the has-subfolder probe.
\<close>

record sys =
  SHAlloc_pidl :: "find_data \<Rightarrow> bool"
  SHAlloc_node :: "pidl \<Rightarrow> bool"
  FileTimeToDosDateTime :: "64 word \<Rightarrow> WORD \<times> WORD"
  PathCombineW :: "string \<Rightarrow> string \<Rightarrow> string"
  FindFirstFileW :: "string \<Rightarrow> DWORD + find_data \<times> find_handle"
  ILCreateFromPathW :: "string \<Rightarrow> HRESULT \<times> pidl option"
  MoveFileW :: "string \<Rightarrow> string \<Rightarrow> bool"
  reg_HideFileExt :: "DWORD option"
  reg_NeverShowExt :: "string \<Rightarrow> bool"
  SHELL32_ParseNextElement ::
    "pidl \<Rightarrow> string \<Rightarrow> DWORD option \<Rightarrow> DWORD option
       \<Rightarrow> HRESULT \<times> pidl option \<times> DWORD option \<times> DWORD option"
  SHELL32_CompareChildren :: "DWORD \<Rightarrow> pidl \<Rightarrow> pidl \<Rightarrow> HRESULT"
  SHELL32_CompareDetails :: "DWORD \<Rightarrow> pidl \<Rightarrow> pidl \<Rightarrow> HRESULT"
  SHBindToParent :: "pidl option \<Rightarrow> HRESULT"
  parent_GetAttributesOf :: "pidl \<Rightarrow> DWORD \<Rightarrow> HRESULT \<times> DWORD"
  psf_BindToObject :: "pidl \<Rightarrow> HRESULT"
  psf2_EnumObjects :: "pidl \<Rightarrow> HRESULT"
  pEnumIL_Skip :: "pidl \<Rightarrow> HRESULT"

text \<open>The state of a \<open>CFSFolder\<close>: its root pidl and the path it denotes.\<close>

record CFSFolder =
  pidlRoot :: "pidl option"
  sPathTarget :: string

section \<open>String helpers\<close>

text \<open>
  Modelled from the spec: \<open>lstrcpynW\<close> of \<open>kernel32\<close>, the bounded copy into the folder's
  fixed path buffers: \<open>lstrcpynW(dst, src, n)\<close> stores at most \<open>n - 1\<close> characters of \<open>src\<close>.
  The count is a \<open>nat\<close>: the code never passes a negative one as long as the paths it is
  given are shorter than \<open>MAX_PATH\<close>, which \<open>PathCombineW\<close> and the buffers ensure.
\<close>

definition lstrcpynW :: "string \<Rightarrow> nat \<Rightarrow> string" where
  "lstrcpynW src n = take (n - 1) src"

text \<open>
  Modelled from the spec: \<open>towlower\<close> of the C runtime on the letters \<open>A\<close> to \<open>Z\<close>, for the
  comparisons that the spec calls case-insensitive.
\<close>

definition towlower :: "char \<Rightarrow> char" where
  "towlower c =
     (if of_char (CHR ''A'') \<le> (of_char c :: nat) \<and> (of_char c :: nat) \<le> of_char (CHR ''Z'')
      then char_of (of_char c + (32 :: nat)) else c)"

text \<open>
  Modelled from the spec: \<open>wcsicmp\<close> of the C runtime, the "case-insensitive lexical"
  comparison of two names: the difference of the first pair of lower-cased characters that
  differ, the end of a string counting as 0.
\<close>

fun wcsicmp :: "string \<Rightarrow> string \<Rightarrow> int" where
  "wcsicmp [] [] = 0"
| "wcsicmp [] (y # ys) = - int (of_char (towlower y))"
| "wcsicmp (x # xs) [] = int (of_char (towlower x))"
| "wcsicmp (x # xs) (y # ys) =
     (if towlower x = towlower y then wcsicmp xs ys
      else int (of_char (towlower x)) - int (of_char (towlower y)))"

text \<open>
  Modelled from the spec: \<open>PathFindExtensionW\<close> of \<open>shlwapi\<close>, the "extension substring" of a
  name: the text from the last dot on, provided no backslash or space follows that dot, and
  the empty string otherwise. \<open>ext_scan\<close> is its loop, \<open>lastpoint\<close> the candidate so far.
\<close>

fun ext_scan :: "string option \<Rightarrow> string \<Rightarrow> string" where
  "ext_scan lastpoint [] = (case lastpoint of None \<Rightarrow> [] | Some e \<Rightarrow> e)"
| "ext_scan lastpoint (c # cs) =
     (if c = CHR 0x5C \<or> c = CHR '' '' then ext_scan None cs
      else if c = CHR ''.'' then ext_scan (Some (c # cs)) cs
      else ext_scan lastpoint cs)"

definition PathFindExtensionW :: "string \<Rightarrow> string" where
  "PathFindExtensionW lpszPath = ext_scan None lpszPath"

text \<open>
  Modelled from the spec: \<open>PathAddBackslashW\<close> of \<open>shlwapi\<close> ("join path strings"): a
  non-empty path shorter than \<open>MAX_PATH\<close> gets a trailing backslash unless it has one.
  This is the string it leaves; whether that string fits the caller's buffer is checked
  where the caller is modelled.
\<close>

definition PathAddBackslashW :: "string \<Rightarrow> string" where
  "PathAddBackslashW p =
     (if length p \<ge> MAX_PATH \<or> p = [] then p
      else if last p = CHR 0x5C then p else p @ [CHR 0x5C])"

text \<open>
  Modelled from the spec: \<open>GetNextElementW\<close> (shell32's \<open>shlfolder.cpp\<close>), which "splits text
  on the path separator, consuming one segment per iteration". It yields the first segment,
  cut to the buffer, and the text after the separator: \<open>None\<close> (a \<open>NULL\<close> pointer) when the
  segment ends the string, the possibly empty remainder otherwise.
\<close>

definition GetNextElementW :: "string \<Rightarrow> nat \<Rightarrow> string \<times> string option" where
  "GetNextElementW pszNext dwOut =
     (if pszNext = [] then ([], None)
      else
        let seg = takeWhile (\<lambda>c. c \<noteq> CHR 0x5C) pszNext;
            pszTail = dropWhile (\<lambda>c. c \<noteq> CHR 0x5C) pszNext;
            dwCopy = length seg + 1
        in (lstrcpynW pszNext (if dwOut < dwCopy then dwOut else dwCopy),
            if pszTail = [] then None else Some (tl pszTail)))"

section \<open>Decoding and creating identifiers\<close>

text \<open>
  Modelled from the spec: the identifier codec of shell32's \<open>pidl.cpp\<close> is not part of the
  folder sources. The spec gives its accessors ("kind test, name extraction, size, split
  date/time, attribute bitmask, extension substring") and says that it "only inspects
  identifiers it recognizes by a type tag". The names keep those of the code without the
  leading underscore. All of them look at the first item of the pidl and treat the empty
  pidl like \<open>NULL\<close>.
\<close>

definition ILGetDataPointer :: "pidl \<Rightarrow> item option" where
  "ILGetDataPointer p = (case p of [] \<Rightarrow> None | x # _ \<Rightarrow> Some x)"

definition ILIsFolder :: "pidl \<Rightarrow> bool" where
  "ILIsFolder p =
     (case ILGetDataPointer p of None \<Rightarrow> False
      | Some d \<Rightarrow> ptype d = PT_FOLDER \<or> ptype d = PT_FOLDER1)"

definition ILIsValue :: "pidl \<Rightarrow> bool" where
  "ILIsValue p =
     (case ILGetDataPointer p of None \<Rightarrow> False | Some d \<Rightarrow> ptype d = PT_VALUE)"

definition ILIsDrive :: "pidl \<Rightarrow> bool" where
  "ILIsDrive p =
     (case ILGetDataPointer p of None \<Rightarrow> False
      | Some d \<Rightarrow> ptype d = PT_DRIVE \<or> ptype d = PT_DRIVE1
                  \<or> ptype d = PT_DRIVE2 \<or> ptype d = PT_DRIVE3)"

definition ILGetFileAttributes :: "pidl \<Rightarrow> DWORD" where
  "ILGetFileAttributes p =
     (case ILGetDataPointer p of None \<Rightarrow> 0
      | Some d \<Rightarrow> if ptype d = PT_FOLDER \<or> ptype d = PT_VALUE
                  then ucast (uFileAttribs d) else 0)"

definition ILGetFileStructW :: "pidl \<Rightarrow> string option" where
  "ILGetFileStructW p =
     (if \<not> (ILIsValue p \<or> ILIsFolder p) then None
      else case ILGetDataPointer p of None \<Rightarrow> None | Some d \<Rightarrow> wszName d)"

definition ILFindLastID :: "pidl \<Rightarrow> pidl" where
  "ILFindLastID p = (if p = [] then [] else [last p])"

text \<open>
  Modelled from the spec: \<open>_ILGetExtension\<close> of \<open>pidl.cpp\<close>, the "extension substring" of a
  file item's narrow name, without the dot; \<open>None\<close> where the code returns \<open>FALSE\<close>.
\<close>

definition ILGetExtension :: "pidl \<Rightarrow> nat \<Rightarrow> string option" where
  "ILGetExtension p uOutSize =
     (let pidlTemp = ILFindLastID p in
      if \<not> ILIsValue pidlTemp then None
      else case ILGetDataPointer pidlTemp of None \<Rightarrow> None
        | Some d \<Rightarrow>
            (let pPoint = PathFindExtensionW (szNames d) in
             if pPoint = [] then None else Some (take (uOutSize - 1) (tl pPoint))))"

text \<open>
  Modelled from the spec: \<open>_ILCreateFromFindDataW\<close> of \<open>pidl.cpp\<close>, the spec's
  \<open>FromFileEntry\<close>, which "maps a directory-scan record (name, attributes, size,
  write-time) to a Folder or File identifier depending on the directory bit" and "fails
  only on allocation failure". \<open>find_data_item\<close> is the item it fills in.
\<close>

definition find_data_item :: "sys \<Rightarrow> find_data \<Rightarrow> item" where
  "find_data_item s wfd =
     \<lparr> ptype = (if dwFileAttributes wfd AND FILE_ATTRIBUTE_DIRECTORY \<noteq> 0
                then PT_FOLDER else PT_VALUE),
       dwFileSize = nFileSizeLow wfd,
       uFileDate = fst (FileTimeToDosDateTime s (ftLastWriteTime wfd)),
       uFileTime = snd (FileTimeToDosDateTime s (ftLastWriteTime wfd)),
       uFileAttribs = ucast (dwFileAttributes wfd),
       szNames = cFileName wfd,
       wszName = Some (cFileName wfd) \<rparr>"

definition ILCreateFromFindDataW :: "sys \<Rightarrow> find_data \<Rightarrow> pidl option" where
  "ILCreateFromFindDataW s wfd =
     (if \<not> SHAlloc_pidl s wfd then None else Some [find_data_item s wfd])"

text \<open>
  Modelled from the spec: \<open>CEnumIDListBase::AddToEnumList\<close>, which "appends to the result
  set in scan order". It refuses a \<open>NULL\<close> pidl and fails when the list node cannot be
  allocated.
\<close>

definition AddToEnumList :: "sys \<Rightarrow> pidl option \<Rightarrow> pidl list \<Rightarrow> bool \<times> pidl list" where
  "AddToEnumList s pidl lst =
     (case pidl of None \<Rightarrow> (False, lst)
      | Some p \<Rightarrow> if SHAlloc_node s p then (True, lst @ [p]) else (False, lst))"

text \<open>
  Modelled from the spec: \<open>MAKE_COMPARE_HRESULT\<close> (\<open>shellutils.h\<close>) packs the outcome of a
  comparison, "negative, zero, positive", into a success code whose low word the caller
  reads as a signed 16-bit number (\<open>compare_result\<close>).
\<close>

definition S_LESSTHAN :: HRESULT where "S_LESSTHAN = 0xFFFF"
definition S_EQUAL :: HRESULT where "S_EQUAL = S_OK"
definition S_GREATERTHAN :: HRESULT where "S_GREATERTHAN = S_FALSE"

definition MAKE_COMPARE_HRESULT :: "int \<Rightarrow> HRESULT" where
  "MAKE_COMPARE_HRESULT x =
     (if x > 0 then S_GREATERTHAN else if x < 0 then S_LESSTHAN else S_EQUAL)"

definition compare_result :: "HRESULT \<Rightarrow> int" where
  "compare_result hr = sint (ucast hr :: 16 word)"

definition LOWORD :: "DWORD \<Rightarrow> nat" where
  "LOWORD l = unat (l AND 0xFFFF)"

text \<open>
  Modelled from the spec: \<open>lstrcmpiA\<close>, of which the folder code only asks whether it is 0,
  that is whether two narrow strings are equal up to case.
\<close>

definition lstrcmpiA :: "string \<Rightarrow> string \<Rightarrow> int" where
  "lstrcmpiA a b = wcsicmp a b"

section \<open>The directory enumerator\<close>

text \<open>
  Modelled from the spec: the \<open>BOOL\<close> values \<open>TRUE\<close> and \<open>FALSE\<close> of \<open>windef.h\<close>, here at the
  type at which \<open>CFileSysEnum::Initialize\<close> returns them.
\<close>

definition TRUE :: HRESULT where "TRUE = 1"
definition FALSE :: HRESULT where "FALSE = 0"

text \<open>
  The body of the \<open>do\<close> loop of \<open>CFileSysEnum::Initialize\<close> up to the \<open>if (succeeded)\<close>: one
  scanned record is filtered by the content mask and, if it passes, converted and appended.
  \<open>succeeded\<close> is \<open>TRUE\<close> whenever the body starts, so its new value is that of
  \<open>AddToEnumList\<close>.
\<close>

definition Initialize_entry :: "sys \<Rightarrow> DWORD \<Rightarrow> find_data \<Rightarrow> pidl list \<Rightarrow> bool \<times> pidl list" where
  "Initialize_entry s dwFlags stffile lst =
     (if dwFileAttributes stffile AND FILE_ATTRIBUTE_HIDDEN = 0
         \<or> dwFlags AND SHCONTF_INCLUDEHIDDEN \<noteq> 0
      then
        (if dwFileAttributes stffile AND FILE_ATTRIBUTE_DIRECTORY \<noteq> 0
            \<and> dwFlags AND SHCONTF_FOLDERS \<noteq> 0
            \<and> cFileName stffile \<noteq> ''.'' \<and> cFileName stffile \<noteq> ''..''
         then AddToEnumList s (ILCreateFromFindDataW s stffile) lst
         else if dwFileAttributes stffile AND FILE_ATTRIBUTE_DIRECTORY = 0
                 \<and> dwFlags AND SHCONTF_NONFOLDERS \<noteq> 0
         then AddToEnumList s (ILCreateFromFindDataW s stffile) lst
         else (True, lst))
      else (True, lst))"

text \<open>
  The \<open>do ... while (succeeded && !findFinished)\<close> loop. \<open>FindNextFileW\<close> takes the next
  pending record of the handle; when none is left it fails and \<open>GetLastError\<close> gives the
  handle's final error.
\<close>

function Initialize_loop ::
  "sys \<Rightarrow> DWORD \<Rightarrow> find_data \<Rightarrow> find_handle \<Rightarrow> pidl list \<Rightarrow> bool \<times> pidl list" where
  "Initialize_loop s dwFlags stffile (FindHandle [] err) lst =
     (case Initialize_entry s dwFlags stffile lst of
        (succeeded, lst') \<Rightarrow>
          if succeeded then
            (if err = ERROR_NO_MORE_FILES then (True, lst') else (False, lst'))
          else (False, lst'))"
| "Initialize_loop s dwFlags stffile (FindHandle (nxt # rest) err) lst =
     (case Initialize_entry s dwFlags stffile lst of
        (succeeded, lst') \<Rightarrow>
          if succeeded then Initialize_loop s dwFlags nxt (FindHandle rest err) lst'
          else (False, lst'))"
  by pat_completeness auto
termination
  by (relation "measure (\<lambda>(s, dwFlags, stffile, hFile, lst). length (pending hFile))") auto

text \<open>
  The search pattern that \<open>CFileSysEnum::Initialize\<close> builds in its local buffer
  \<open>WCHAR szPath[MAX_PATH]\<close>: \<open>wcscpy\<close> of the path, \<open>PathAddBackslashW\<close>, \<open>wcscat\<close> of
  \<open>*.*\<close>. None of the three checks the buffer, so the pattern and its terminating NUL
  must fit into \<open>MAX_PATH\<close> characters; \<open>None\<close> stands for a write past the end of the
  buffer, after which the behaviour of the program is undefined. The pattern is the longest
  string the three calls write, so the one test covers all of them.
\<close>

definition Initialize_szPath :: "string \<Rightarrow> string option" where
  "Initialize_szPath lpszPath =
     (if MAX_PATH \<le> length (PathAddBackslashW lpszPath @ ''*.*'') then None
      else Some (PathAddBackslashW lpszPath @ ''*.*''))"

text \<open>
  \<open>CFileSysEnum::Initialize\<close>. It is declared to return an \<open>HRESULT\<close> and returns the \<open>BOOL\<close>
  \<open>succeeded\<close>, so its value is \<open>TRUE\<close> (1) or \<open>FALSE\<close> (0). The second component is the
  enumeration list of the object afterwards. The result is \<open>None\<close> when the path is too
  long for \<open>szPath\<close> and the call overruns the buffer.
\<close>

definition Initialize ::
  "sys \<Rightarrow> string option \<Rightarrow> DWORD \<Rightarrow> (HRESULT \<times> pidl list) option" where
  "Initialize s lpszPath dwFlags =
     (case lpszPath of None \<Rightarrow> Some (FALSE, [])
      | Some path \<Rightarrow>
          if path = [] then Some (FALSE, [])
          else
            (case Initialize_szPath path of
               None \<Rightarrow> None
             | Some szPath \<Rightarrow>
                 (case FindFirstFileW s szPath of
                    Inl err \<Rightarrow> Some (TRUE, [])
                  | Inr (stffile, hFile) \<Rightarrow>
                      (case Initialize_loop s dwFlags stffile hFile [] of
                         (succeeded, lst) \<Rightarrow>
                           Some (if succeeded then TRUE else FALSE, lst)))))"

section \<open>Attributes\<close>

text \<open>
  \<open>SHELL32_GetFSItemAttributes\<close>: the status and the new value of \<open>*pdwAttributes\<close>. The
  has-subfolder probe binds to the item, enumerates its folders and skips one entry.
\<close>

definition SHELL32_GetFSItemAttributes :: "sys \<Rightarrow> pidl \<Rightarrow> DWORD \<Rightarrow> HRESULT \<times> DWORD" where
  "SHELL32_GetFSItemAttributes s pidl pdwAttributes =
     (if \<not> ILIsFolder pidl \<and> \<not> ILIsValue pidl then (S_OK, pdwAttributes AND SFGAO_CANLINK)
      else
        let dwFileAttributes = ILGetFileAttributes pidl;
            a0 = SFGAO_CANCOPY OR SFGAO_CANMOVE OR SFGAO_CANLINK OR SFGAO_CANRENAME
                 OR SFGAO_CANDELETE OR SFGAO_HASPROPSHEET OR SFGAO_DROPTARGET
                 OR SFGAO_FILESYSTEM;
            a1 = (if dwFileAttributes AND FILE_ATTRIBUTE_DIRECTORY \<noteq> 0
                  then a0 OR (SFGAO_FOLDER OR SFGAO_HASSUBFOLDER OR SFGAO_FILESYSANCESTOR
                              OR SFGAO_STORAGEANCESTOR OR SFGAO_STORAGE)
                  else a0 OR SFGAO_STREAM);
            a2 = (if dwFileAttributes AND FILE_ATTRIBUTE_HIDDEN \<noteq> 0
                  then a1 OR SFGAO_HIDDEN else a1);
            a3 = (if dwFileAttributes AND FILE_ATTRIBUTE_READONLY \<noteq> 0
                  then a2 OR SFGAO_READONLY else a2);
            a4 = (if SFGAO_LINK AND pdwAttributes \<noteq> 0
                  then (case ILGetExtension pidl MAX_PATH of
                          None \<Rightarrow> a3
                        | Some ext \<Rightarrow> if lstrcmpiA ext ''lnk'' = 0 then a3 OR SFGAO_LINK else a3)
                  else a3);
            a5 = (if SFGAO_HASSUBFOLDER AND pdwAttributes \<noteq> 0
                  then (if SUCCEEDED (psf_BindToObject s pidl)
                        then (if SUCCEEDED (psf2_EnumObjects s pidl)
                              then (if pEnumIL_Skip s pidl = S_OK
                                    then a4 OR SFGAO_HASSUBFOLDER else a4)
                              else a4)
                        else a4)
                  else a4)
        in (S_OK, a5))"

text \<open>
  The \<open>while (cidl > 0 && *apidl)\<close> loop of \<open>CFSFolder::GetAttributesOf\<close> over the array
  \<open>apidl\<close>. The caller passes at least \<open>cidl\<close> entries; the second equation only makes the
  function total.
\<close>

fun GetAttributesOf_loop :: "sys \<Rightarrow> nat \<Rightarrow> pidl option list \<Rightarrow> DWORD \<Rightarrow> DWORD" where
  "GetAttributesOf_loop s 0 apidl rgf = rgf"
| "GetAttributesOf_loop s (Suc cidl) [] rgf = rgf"
| "GetAttributesOf_loop s (Suc cidl) (None # rest) rgf = rgf"
| "GetAttributesOf_loop s (Suc cidl) (Some p # rest) rgf =
     GetAttributesOf_loop s cidl rest
       (if ILIsFolder p \<or> ILIsValue p then snd (SHELL32_GetFSItemAttributes s p rgf)
        else rgf)"

text \<open>
  \<open>CFSFolder::GetAttributesOf\<close>: the status and the content of \<open>*rgfInOut\<close> afterwards
  (\<open>None\<close> for a \<open>NULL\<close> pointer). The early returns leave \<open>*rgfInOut\<close> as it was.
\<close>

definition GetAttributesOf ::
  "sys \<Rightarrow> CFSFolder \<Rightarrow> nat \<Rightarrow> pidl option list option \<Rightarrow> DWORD option
     \<Rightarrow> HRESULT \<times> DWORD option" where
  "GetAttributesOf s this cidl apidl rgfInOut =
     (case rgfInOut of None \<Rightarrow> (E_INVALIDARG, None)
      | Some rgf0 \<Rightarrow>
          if cidl \<noteq> 0 \<and> apidl = None then (E_INVALIDARG, Some rgf0)
          else
            let rgf1 = (if rgf0 = 0 then NOT 0 else rgf0);
                r = (if cidl = 0 then
                       (let rpidl = (case pidlRoot this of None \<Rightarrow> []
                                     | Some root \<Rightarrow> ILFindLastID root)
                        in if ILIsFolder rpidl \<or> ILIsValue rpidl
                           then (S_OK, snd (SHELL32_GetFSItemAttributes s rpidl rgf1))
                           else if ILIsDrive rpidl
                           then (if SUCCEEDED (SHBindToParent s (pidlRoot this))
                                 then parent_GetAttributesOf s rpidl rgf1
                                 else (SHBindToParent s (pidlRoot this), rgf1))
                           else (S_OK, rgf1))
                     else (S_OK, GetAttributesOf_loop s cidl
                                   (case apidl of None \<Rightarrow> [] | Some a \<Rightarrow> a) rgf1))
            in (fst r, Some (snd r AND NOT SFGAO_VALIDATE)))"

section \<open>Parsing\<close>

text \<open>
  \<open>SHELL32_CreatePidlFromBindCtx\<close>: if the caller bound file-system bind data, its find data
  stands for the path, whose name is copied into the record before the item is created.
\<close>

definition SHELL32_CreatePidlFromBindCtx :: "sys \<Rightarrow> bind_ctx option \<Rightarrow> string \<Rightarrow> pidl option" where
  "SHELL32_CreatePidlFromBindCtx s pbc path =
     (case pbc of None \<Rightarrow> None
      | Some ctx \<Rightarrow>
          (case GetObjectParam ctx of
             ParamMissing \<Rightarrow> None
           | ParamNotBindData \<Rightarrow> None
           | BindData r wfd \<Rightarrow>
               if SUCCEEDED r
               then ILCreateFromFindDataW s (wfd\<lparr>cFileName := lstrcpynW path MAX_PATH\<rparr>)
               else None))"

text \<open>The assignment \<open>pidl->mkid.abID[0] = t\<close>: the type byte of the first item.\<close>

definition set_abID0 :: "pidl \<Rightarrow> 8 word \<Rightarrow> pidl" where
  "set_abID0 p t = (case p of [] \<Rightarrow> [] | x # xs \<Rightarrow> x\<lparr>ptype := t\<rparr> # xs)"

text \<open>
  The part of \<open>CFSFolder::ParseDisplayName\<close> that turns the current element into
  \<open>pidlTemp\<close>: from the bind context if it supplies find data, else from the path of the
  element below the folder's target. It yields \<open>hr\<close> and \<open>pidlTemp\<close>. Every write into
  \<open>szElement\<close> and \<open>szPath\<close> is a bounded \<open>lstrcpynW\<close>, and \<open>PathAddBackslashW\<close> gets at
  most \<open>MAX_PATH - 2\<close> characters, so neither buffer is overrun.
\<close>

definition ParseDisplayName_element ::
  "sys \<Rightarrow> CFSFolder \<Rightarrow> bind_ctx option \<Rightarrow> string \<Rightarrow> string option \<Rightarrow> HRESULT \<times> pidl option" where
  "ParseDisplayName_element s this pbc szElement szNext =
     (case SHELL32_CreatePidlFromBindCtx s pbc szElement of
        Some pidlTemp \<Rightarrow>
          (S_OK, Some (if szNext \<noteq> None then set_abID0 pidlTemp PT_FOLDER else pidlTemp))
      | None \<Rightarrow>
          (let szPath = PathAddBackslashW (lstrcpynW (sPathTarget this) (MAX_PATH - 1));
               len = length szPath
           in ILCreateFromPathW s (szPath @ lstrcpynW szElement (MAX_PATH - len))))"

text \<open>
  What a call of \<open>ParseDisplayName\<close> leaves behind: its status and the contents of \<open>*ppidl\<close>,
  \<open>*pchEaten\<close> and \<open>*pdwAttributes\<close> (\<open>None\<close> for a \<open>NULL\<close> pointer, and for \<open>*ppidl\<close> also for
  a \<open>NULL\<close> result).
\<close>

record parse_result =
  hr_of :: HRESULT
  ppidl_of :: "pidl option"
  pchEaten_of :: "DWORD option"
  pdwAttributes_of :: "DWORD option"

definition ParseDisplayName ::
  "sys \<Rightarrow> CFSFolder \<Rightarrow> bind_ctx option \<Rightarrow> string option \<Rightarrow> DWORD option \<Rightarrow> bool
     \<Rightarrow> DWORD option \<Rightarrow> parse_result" where
  "ParseDisplayName s this pbc lpszDisplayName pchEaten ppidl pdwAttributes =
     (if \<not> ppidl then
        \<lparr>hr_of = E_INVALIDARG, ppidl_of = None, pchEaten_of = pchEaten,
         pdwAttributes_of = pdwAttributes\<rparr>
      else case lpszDisplayName of
        None \<Rightarrow>
          \<lparr>hr_of = E_INVALIDARG, ppidl_of = None, pchEaten_of = pchEaten,
           pdwAttributes_of = pdwAttributes\<rparr>
      | Some txt \<Rightarrow>
          (let eaten = (case pchEaten of None \<Rightarrow> None | Some _ \<Rightarrow> Some 0) in
           if txt = [] then
             \<lparr>hr_of = E_INVALIDARG, ppidl_of = None, pchEaten_of = eaten,
              pdwAttributes_of = pdwAttributes\<rparr>
           else
             (case GetNextElementW txt MAX_PATH of
                (szElement, szNext) \<Rightarrow>
                  (case ParseDisplayName_element s this pbc szElement szNext of
                     (hr, pidlTemp) \<Rightarrow>
                       if SUCCEEDED hr then
                         (if szNext \<noteq> None \<and> szNext \<noteq> Some [] then
                            (case SHELL32_ParseNextElement s
                                    (case pidlTemp of None \<Rightarrow> [] | Some p \<Rightarrow> p)
                                    (case szNext of None \<Rightarrow> [] | Some n \<Rightarrow> n)
                                    eaten pdwAttributes of
                               (hr', pidlTemp', eaten', attrs') \<Rightarrow>
                                 \<lparr>hr_of = hr',
                                  ppidl_of = (if SUCCEEDED hr' then pidlTemp' else None),
                                  pchEaten_of = eaten', pdwAttributes_of = attrs'\<rparr>)
                          else if pdwAttributes \<noteq> None \<and> pdwAttributes \<noteq> Some 0 then
                            (case SHELL32_GetFSItemAttributes s
                                    (case pidlTemp of None \<Rightarrow> [] | Some p \<Rightarrow> p)
                                    (case pdwAttributes of None \<Rightarrow> 0 | Some a \<Rightarrow> a) of
                               (hr', attrs') \<Rightarrow>
                                 \<lparr>hr_of = hr',
                                  ppidl_of = (if SUCCEEDED hr' then pidlTemp else None),
                                  pchEaten_of = eaten, pdwAttributes_of = Some attrs'\<rparr>)
                          else
                            \<lparr>hr_of = hr, ppidl_of = pidlTemp, pchEaten_of = eaten,
                             pdwAttributes_of = pdwAttributes\<rparr>)
                       else
                         \<lparr>hr_of = hr, ppidl_of = None, pchEaten_of = eaten,
                          pdwAttributes_of = pdwAttributes\<rparr>))))"

section \<open>Comparing\<close>

definition GENERICSHELLVIEWCOLUMNS :: nat where "GENERICSHELLVIEWCOLUMNS = 6"

text \<open>
  \<open>CFSFolder::CompareIDs\<close>. \<open>result\<close> is a C \<open>int\<close>: the difference of the two \<open>DWORD\<close> sizes
  is taken modulo \<open>2 ^ 32\<close> and then read as signed, the two \<open>WORD\<close> dates and times are
  promoted to \<open>int\<close> before they are subtracted.
\<close>

definition CompareIDs :: "sys \<Rightarrow> DWORD \<Rightarrow> pidl \<Rightarrow> pidl \<Rightarrow> HRESULT" where
  "CompareIDs s lParam pidl1 pidl2 =
     (case ILGetFileStructW pidl1 of None \<Rightarrow> E_INVALIDARG
      | Some wszName1 \<Rightarrow>
     (case ILGetFileStructW pidl2 of None \<Rightarrow> E_INVALIDARG
      | Some wszName2 \<Rightarrow>
     (case ILGetDataPointer pidl1 of None \<Rightarrow> E_INVALIDARG
      | Some pData1 \<Rightarrow>
     (case ILGetDataPointer pidl2 of None \<Rightarrow> E_INVALIDARG
      | Some pData2 \<Rightarrow>
          if LOWORD lParam \<ge> GENERICSHELLVIEWCOLUMNS then E_INVALIDARG
          else if ILIsFolder pidl1 \<noteq> ILIsFolder pidl2
          then MAKE_COMPARE_HRESULT (if ILIsFolder pidl1 then - 1 else 1)
          else if LOWORD lParam = 5 then SHELL32_CompareDetails s lParam pidl1 pidl2
          else
            (let result =
               (if LOWORD lParam = 0 then wcsicmp wszName1 wszName2
                else if LOWORD lParam = 1 then 0
                else if LOWORD lParam = 2
                then wcsicmp (PathFindExtensionW wszName1) (PathFindExtensionW wszName2)
                else if LOWORD lParam = 3
                then sint (dwFileSize pData1 - dwFileSize pData2)
                else (if uint (uFileDate pData1) - uint (uFileDate pData2) = 0
                      then uint (uFileTime pData1) - uint (uFileTime pData2)
                      else uint (uFileDate pData1) - uint (uFileDate pData2)))
             in if result = 0 then SHELL32_CompareChildren s lParam pidl1 pidl2
                else MAKE_COMPARE_HRESULT result)))))"

section \<open>Renaming\<close>

text \<open>
  \<open>SHELL_FS_HideExtension\<close>: the registry says whether the extension of a path is hidden,
  either for all files (\<open>HideFileExt\<close>, absent when the key or the value cannot be read) or
  for the class of this extension (\<open>NeverShowExt\<close>).
\<close>

definition SHELL_FS_HideExtension :: "sys \<Rightarrow> string \<Rightarrow> bool" where
  "SHELL_FS_HideExtension s szPath =
     (let doHide = (case reg_HideFileExt s of None \<Rightarrow> False | Some dwData \<Rightarrow> dwData \<noteq> 0) in
      if \<not> doHide then
        (let ext = PathFindExtensionW szPath in
         if ext \<noteq> [] then (if reg_NeverShowExt s ext then True else doHide) else doHide)
      else doHide)"

text \<open>The calls by which \<open>SetNameOf\<close> acts on the world, in the order it makes them.\<close>

datatype fs_event =
  MoveFileW_call string string
| SHChangeNotify_call DWORD string string

record setname_result =
  sn_hr :: HRESULT
  sn_pPidlOut :: "pidl option"
  sn_events :: "fs_event list"

text \<open>
  The source path \<open>szSrc\<close> of \<open>CFSFolder::SetNameOf\<close>. Its buffers hold \<open>MAX_PATH + 1\<close>
  characters and are written by \<open>PathCombineW\<close>, which by its contract stores at most
  \<open>MAX_PATH\<close>, and by bounded \<open>lstrcpynW\<close> calls.
\<close>

definition SetNameOf_szSrc :: "sys \<Rightarrow> CFSFolder \<Rightarrow> string \<Rightarrow> string" where
  "SetNameOf_szSrc s this name = PathCombineW s (sPathTarget this) name"

text \<open>The destination path before the hidden extension is looked at.\<close>

definition SetNameOf_szDest0 :: "sys \<Rightarrow> CFSFolder \<Rightarrow> string \<Rightarrow> DWORD \<Rightarrow> string" where
  "SetNameOf_szDest0 s this lpName dwFlags =
     (if dwFlags = SHGDN_NORMAL \<or> dwFlags AND SHGDN_INFOLDER \<noteq> 0
      then PathCombineW s (sPathTarget this) lpName
      else lstrcpynW lpName MAX_PATH)"

text \<open>The destination path \<open>szDest\<close> that \<open>SetNameOf\<close> compares and renames to.\<close>

definition SetNameOf_szDest :: "sys \<Rightarrow> CFSFolder \<Rightarrow> string \<Rightarrow> string \<Rightarrow> DWORD \<Rightarrow> string" where
  "SetNameOf_szDest s this szSrc lpName dwFlags =
     (let szDest = SetNameOf_szDest0 s this lpName dwFlags in
      if dwFlags AND SHGDN_FORPARSING = 0 \<and> SHELL_FS_HideExtension s szSrc then
        (let ext = PathFindExtensionW szSrc in
         if ext \<noteq> [] then szDest @ lstrcpynW ext (MAX_PATH - length szDest) else szDest)
      else szDest)"

text \<open>
  \<open>CFSFolder::SetNameOf\<close>; \<open>pPidlOut\<close> says whether the caller asked for the new identifier.
\<close>

definition SetNameOf ::
  "sys \<Rightarrow> CFSFolder \<Rightarrow> pidl \<Rightarrow> string \<Rightarrow> DWORD \<Rightarrow> bool \<Rightarrow> setname_result" where
  "SetNameOf s this pidl lpName dwFlags pPidlOut =
     (let bIsFolder = ILIsFolder (ILFindLastID pidl) in
      case ILGetFileStructW pidl of
        None \<Rightarrow> \<lparr>sn_hr = E_INVALIDARG, sn_pPidlOut = None, sn_events = []\<rparr>
      | Some name \<Rightarrow>
          (let szSrc = SetNameOf_szSrc s this name;
               szDest = SetNameOf_szDest s this szSrc lpName dwFlags
           in if szSrc = szDest then
                (if pPidlOut
                 then \<lparr>sn_hr = fst (ILCreateFromPathW s szDest),
                       sn_pPidlOut = snd (ILCreateFromPathW s szDest), sn_events = []\<rparr>
                 else \<lparr>sn_hr = S_OK, sn_pPidlOut = None, sn_events = []\<rparr>)
              else if MoveFileW s szSrc szDest then
                (let notify = SHChangeNotify_call
                       (if bIsFolder then SHCNE_RENAMEFOLDER else SHCNE_RENAMEITEM)
                       szSrc szDest
                 in if pPidlOut
                    then \<lparr>sn_hr = fst (ILCreateFromPathW s szDest),
                          sn_pPidlOut = snd (ILCreateFromPathW s szDest),
                          sn_events = [MoveFileW_call szSrc szDest, notify]\<rparr>
                    else \<lparr>sn_hr = S_OK, sn_pPidlOut = None,
                          sn_events = [MoveFileW_call szSrc szDest, notify]\<rparr>)
              else \<lparr>sn_hr = E_FAIL, sn_pPidlOut = None,
                    sn_events = [MoveFileW_call szSrc szDest]\<rparr>))"

section \<open>The content mask, in the words of the specification\<close>

text \<open>
  When the enumerator lets a scanned record through: a record hidden in its raw attributes
  only if the mask has the hidden-inclusion bit; a directory only if the mask requests
  folders and its name is neither \<open>.\<close> nor \<open>..\<close>; any other record only if the mask requests
  non-folders.
\<close>

definition is_hidden :: "find_data \<Rightarrow> bool" where
  "is_hidden fd = (dwFileAttributes fd AND FILE_ATTRIBUTE_HIDDEN \<noteq> 0)"

definition is_directory :: "find_data \<Rightarrow> bool" where
  "is_directory fd = (dwFileAttributes fd AND FILE_ATTRIBUTE_DIRECTORY \<noteq> 0)"

definition mask_admits :: "DWORD \<Rightarrow> find_data \<Rightarrow> bool" where
  "mask_admits grfFlags fd =
     ((if is_hidden fd then grfFlags AND SHCONTF_INCLUDEHIDDEN \<noteq> 0 else True)
      \<and> (if is_directory fd
         then grfFlags AND SHCONTF_FOLDERS \<noteq> 0 \<and> cFileName fd \<noteq> ''.'' \<and> cFileName fd \<noteq> ''..''
         else grfFlags AND SHCONTF_NONFOLDERS \<noteq> 0))"

text \<open>
  The records that the scan of a directory delivers, in scan order: none when the scan
  cannot be opened, else the first record and those of the following \<open>FindNextFileW\<close>
  calls.
\<close>

definition scanned :: "sys \<Rightarrow> string \<Rightarrow> find_data list" where
  "scanned s path =
     (case FindFirstFileW s (PathAddBackslashW path @ ''*.*'') of
        Inl err \<Rightarrow> []
      | Inr (stffile, hFile) \<Rightarrow> stffile # pending hFile)"

section \<open>A sample world\<close>

text \<open>
  The directory \<open>D\<close> on drive \<open>C:\<close> is that of the specification's scenario: the folder
  \<open>Sub\<close>, the file \<open>Doc.txt\<close> of 10 bytes and a hidden file, behind the two dot entries.
  \<open>E\<close> is a directory whose scan breaks off after the first record (error 21, device not
  ready); any other directory cannot be opened (error 5, access denied). Known extensions
  are hidden.
\<close>

definition path_D :: string where "path_D = ''C:'' @ [CHR 0x5C] @ ''D''"
definition path_E :: string where "path_E = ''C:'' @ [CHR 0x5C] @ ''E''"
definition path_F :: string where "path_F = ''C:'' @ [CHR 0x5C] @ ''F''"

definition fd_dot :: find_data where
  "fd_dot = \<lparr>dwFileAttributes = 0x10, ftLastWriteTime = 0x10002, nFileSizeLow = 0,
             cFileName = ''.''\<rparr>"

definition fd_dotdot :: find_data where
  "fd_dotdot = \<lparr>dwFileAttributes = 0x10, ftLastWriteTime = 0x10002, nFileSizeLow = 0,
                cFileName = ''..''\<rparr>"

definition fd_Sub :: find_data where
  "fd_Sub = \<lparr>dwFileAttributes = 0x10, ftLastWriteTime = 0x10002, nFileSizeLow = 0,
             cFileName = ''Sub''\<rparr>"

definition fd_Doc :: find_data where
  "fd_Doc = \<lparr>dwFileAttributes = 0x20, ftLastWriteTime = 0x10002, nFileSizeLow = 10,
             cFileName = ''Doc.txt''\<rparr>"

definition fd_Hidden :: find_data where
  "fd_Hidden = \<lparr>dwFileAttributes = 0x22, ftLastWriteTime = 0x10002, nFileSizeLow = 7,
                cFileName = ''Thumbs.db''\<rparr>"

definition item_Sub :: item where
  "item_Sub = \<lparr>ptype = PT_FOLDER, dwFileSize = 0, uFileDate = 1, uFileTime = 2,
               uFileAttribs = 0x10, szNames = ''Sub'', wszName = Some ''Sub''\<rparr>"

definition item_Doc :: item where
  "item_Doc = \<lparr>ptype = PT_VALUE, dwFileSize = 10, uFileDate = 1, uFileTime = 2,
               uFileAttribs = 0x20, szNames = ''Doc.txt'', wszName = Some ''Doc.txt''\<rparr>"

text \<open>An identifier whose file has been deleted since it was made.\<close>

definition item_Gone :: item where
  "item_Gone = \<lparr>ptype = PT_VALUE, dwFileSize = 3, uFileDate = 1, uFileTime = 2,
                uFileAttribs = 0x20, szNames = ''Gone.txt'', wszName = Some ''Gone.txt''\<rparr>"

text \<open>An identifier of another namespace provider.\<close>

definition item_foreign :: item where
  "item_foreign = \<lparr>ptype = 0x1F, dwFileSize = 0, uFileDate = 0, uFileTime = 0,
                   uFileAttribs = 0, szNames = [], wszName = None\<rparr>"

text \<open>The identifier of a file \<open>data.bin\<close> of a given size.\<close>

definition file_of_size :: "DWORD \<Rightarrow> item" where
  "file_of_size n = \<lparr>ptype = PT_VALUE, dwFileSize = n, uFileDate = 1, uFileTime = 2,
                     uFileAttribs = 0x20, szNames = ''data.bin'',
                     wszName = Some ''data.bin''\<rparr>"

definition ERROR_FILE_NOT_FOUND_hr :: HRESULT where
  "ERROR_FILE_NOT_FOUND_hr = 0x80070002"

definition sys0 :: sys where
  "sys0 =
     \<lparr> SHAlloc_pidl = (\<lambda>_. True),
       SHAlloc_node = (\<lambda>_. True),
       FileTimeToDosDateTime = (\<lambda>ft. (ucast (drop_bit 16 ft), ucast ft)),
       PathCombineW = (\<lambda>dir file. dir @ [CHR 0x5C] @ file),
       FindFirstFileW =
         (\<lambda>p. if p = path_D @ [CHR 0x5C] @ ''*.*''
              then Inr (fd_dot, FindHandle [fd_dotdot, fd_Sub, fd_Doc, fd_Hidden]
                                  ERROR_NO_MORE_FILES)
              else if p = path_E @ [CHR 0x5C] @ ''*.*''
              then Inr (fd_Doc, FindHandle [] 21)
              else Inl 5),
       ILCreateFromPathW =
         (\<lambda>p. if p = path_D @ [CHR 0x5C] @ ''Doc.txt'' then (S_OK, Some [item_Doc])
              else if p = path_D @ [CHR 0x5C] @ ''Sub'' then (S_OK, Some [item_Sub])
              else (ERROR_FILE_NOT_FOUND_hr, None)),
       MoveFileW = (\<lambda>_ _. True),
       reg_HideFileExt = Some 1,
       reg_NeverShowExt = (\<lambda>_. False),
       SHELL32_ParseNextElement = (\<lambda>p nxt eaten attrs. (ERROR_FILE_NOT_FOUND_hr, None, eaten, attrs)),
       SHELL32_CompareChildren = (\<lambda>_ _ _. S_EQUAL),
       SHELL32_CompareDetails = (\<lambda>_ _ _. S_EQUAL),
       SHBindToParent = (\<lambda>_. S_OK),
       parent_GetAttributesOf = (\<lambda>_ rgf. (S_OK, rgf)),
       psf_BindToObject = (\<lambda>_. S_OK),
       psf2_EnumObjects = (\<lambda>_. S_OK),
       pEnumIL_Skip = (\<lambda>_. S_FALSE) \<rparr>"

definition folder_D :: CFSFolder where
  "folder_D = \<lparr>pidlRoot = Some [item_Sub], sPathTarget = path_D\<rparr>"

text \<open>A bind context with file-system bind data that describes a plain file.\<close>

definition ctx_file :: bind_ctx where
  "ctx_file = \<lparr>GetObjectParam = BindData S_OK fd_Doc\<rparr>"

section \<open>Facts for evaluation\<close>

lemmas hr_defs = S_OK_def S_FALSE_def E_INVALIDARG_def E_FAIL_def SUCCEEDED_def FAILED_def
  TRUE_def FALSE_def S_LESSTHAN_def S_EQUAL_def S_GREATERTHAN_def ERROR_FILE_NOT_FOUND_hr_def

lemmas SFGAO_defs = SFGAO_CANCOPY_def SFGAO_CANMOVE_def SFGAO_CANLINK_def SFGAO_STORAGE_def
  SFGAO_CANRENAME_def SFGAO_CANDELETE_def SFGAO_HASPROPSHEET_def SFGAO_DROPTARGET_def
  SFGAO_LINK_def SFGAO_READONLY_def SFGAO_HIDDEN_def SFGAO_STREAM_def
  SFGAO_STORAGEANCESTOR_def SFGAO_VALIDATE_def SFGAO_FILESYSANCESTOR_def SFGAO_FOLDER_def
  SFGAO_FILESYSTEM_def SFGAO_HASSUBFOLDER_def

lemmas attr_defs = FILE_ATTRIBUTE_DIRECTORY_def FILE_ATTRIBUTE_HIDDEN_def
  FILE_ATTRIBUTE_READONLY_def SHCONTF_FOLDERS_def SHCONTF_NONFOLDERS_def
  SHCONTF_INCLUDEHIDDEN_def ERROR_NO_MORE_FILES_def

lemmas PT_defs = PT_DRIVE_def PT_DRIVE1_def PT_DRIVE2_def PT_DRIVE3_def PT_FOLDER_def
  PT_FOLDER1_def PT_VALUE_def

lemmas IL_defs = ILGetDataPointer_def ILIsFolder_def ILIsValue_def ILIsDrive_def
  ILGetFileAttributes_def ILGetFileStructW_def ILFindLastID_def ILGetExtension_def

lemmas world_defs = sys0_def folder_D_def path_D_def path_E_def path_F_def fd_dot_def
  fd_dotdot_def fd_Sub_def fd_Doc_def fd_Hidden_def item_Sub_def item_Doc_def item_Gone_def
  item_foreign_def file_of_size_def ctx_file_def

section \<open>Properties of the attribute query\<close>

text \<open>
  Claim C1. Whenever \<open>GetAttributesOf\<close> returns successfully, the capability mask it leaves
  in \<open>*rgfInOut\<close> has the \<open>SFGAO_VALIDATE\<close> bit clear, whatever identifiers and whatever
  requested mask it was given.
\<close>

theorem GetAttributesOf_clears_VALIDATE:
  assumes "GetAttributesOf s this cidl apidl rgfInOut = (hr, Some out)"
    and "SUCCEEDED hr"
  shows "out AND SFGAO_VALIDATE = 0"
  using assms
  by (auto simp: GetAttributesOf_def SUCCEEDED_def E_INVALIDARG_def Let_def and.assoc
      split: option.splits if_splits)

text \<open>
  A foreign identifier queried with every bit requested: nothing computes attributes, and
  the validate bit is the only one that goes.
\<close>

theorem GetAttributesOf_clears_VALIDATE_witness:
  "GetAttributesOf sys0 folder_D 1 (Some [Some [item_foreign]]) (Some (NOT 0))
     = (S_OK, Some 0xFEFFFFFF)
   \<and> SUCCEEDED S_OK \<and> (0xFEFFFFFF :: DWORD) AND SFGAO_VALIDATE = 0"
proof -
  have run: "GetAttributesOf sys0 folder_D 1 (Some [Some [item_foreign]]) (Some (NOT 0))
      = (S_OK, Some 0xFEFFFFFF)"
    by (simp add: GetAttributesOf_def IL_defs PT_defs world_defs SFGAO_defs hr_defs)
  have ok: "SUCCEEDED S_OK"
    by (simp add: hr_defs)
  from GetAttributesOf_clears_VALIDATE [OF run ok] run ok show ?thesis
    by simp
qed



text \<open>
  The has-subfolder capability is bit 31 of the mask; no other capability that the code
  sets shares it.
\<close>

lemma HASSUBFOLDER_bit: "(x AND SFGAO_HASSUBFOLDER \<noteq> 0) = bit x 31" for x :: DWORD
proof -
  have e: "SFGAO_HASSUBFOLDER = (2 :: DWORD) ^ 31"
    by (simp add: SFGAO_HASSUBFOLDER_def)
  show ?thesis
    unfolding e using and_exp_eq_0_iff_not_bit [of x 31] by blast
qed

lemma HASSUBFOLDER_bit': "(SFGAO_HASSUBFOLDER AND x \<noteq> 0) = bit x 31" for x :: DWORD
  using HASSUBFOLDER_bit [of x] by (simp add: and.commute)

lemma SFGAO_bits31:
  "\<not> bit SFGAO_CANCOPY 31" "\<not> bit SFGAO_CANMOVE 31" "\<not> bit SFGAO_CANLINK 31"
  "\<not> bit SFGAO_CANRENAME 31" "\<not> bit SFGAO_CANDELETE 31" "\<not> bit SFGAO_HASPROPSHEET 31"
  "\<not> bit SFGAO_DROPTARGET 31" "\<not> bit SFGAO_FILESYSTEM 31" "\<not> bit SFGAO_STREAM 31"
  "\<not> bit SFGAO_HIDDEN 31" "\<not> bit SFGAO_READONLY 31" "\<not> bit SFGAO_LINK 31"
  "bit SFGAO_HASSUBFOLDER 31"
  by (simp_all add: SFGAO_defs bit_iff_odd_drop_bit)

text \<open>
  When the code asserts the has-subfolder bit for a file-system item: always for an item
  with the directory attribute, and otherwise exactly when the bit was requested and the
  probe (bind, enumerate folders, skip one) found a folder.
\<close>

lemma GetFSItemAttributes_HASSUBFOLDER_iff:
  assumes "ILIsFolder p \<or> ILIsValue p"
  shows "(snd (SHELL32_GetFSItemAttributes s p req) AND SFGAO_HASSUBFOLDER \<noteq> 0)
         = (ILGetFileAttributes p AND FILE_ATTRIBUTE_DIRECTORY \<noteq> 0
            \<or> (req AND SFGAO_HASSUBFOLDER \<noteq> 0 \<and> SUCCEEDED (psf_BindToObject s p)
               \<and> SUCCEEDED (psf2_EnumObjects s p) \<and> pEnumIL_Skip s p = S_OK))"
  using assms
  by (auto simp: SHELL32_GetFSItemAttributes_def Let_def HASSUBFOLDER_bit HASSUBFOLDER_bit' bit_or_iff
      SFGAO_bits31 split: option.splits)

text \<open>
  Claim C6. The has-subfolder bit is meant to be asserted only when it was requested and a
  probe found a folder child. For the directory \<open>Sub\<close> the code asserts it from the
  directory attribute bit alone: when the request is only for the copy capability, and
  also when the bit is requested and the probe finds no folder (\<open>Skip\<close> does not return
  \<open>S_OK\<close>); the same through \<open>GetAttributesOf\<close>.
\<close>

theorem GetFSItemAttributes_HASSUBFOLDER_without_probe:
  "ILGetFileAttributes [item_Sub] AND FILE_ATTRIBUTE_DIRECTORY \<noteq> 0
   \<and> SFGAO_CANCOPY AND SFGAO_HASSUBFOLDER = 0
   \<and> snd (SHELL32_GetFSItemAttributes sys0 [item_Sub] SFGAO_CANCOPY) AND SFGAO_HASSUBFOLDER \<noteq> 0
   \<and> pEnumIL_Skip sys0 [item_Sub] \<noteq> S_OK
   \<and> snd (SHELL32_GetFSItemAttributes sys0 [item_Sub] SFGAO_HASSUBFOLDER)
        AND SFGAO_HASSUBFOLDER \<noteq> 0
   \<and> GetAttributesOf sys0 folder_D 1 (Some [Some [item_Sub]]) (Some SFGAO_CANCOPY)
       = (S_OK, Some 0xF080017F)"
  by (simp add: GetAttributesOf_def SHELL32_GetFSItemAttributes_def IL_defs PT_defs
      world_defs SFGAO_defs hr_defs attr_defs)

section \<open>Properties of the comparison\<close>

text \<open>
  Claim C2. \<open>CompareIDs\<close> is meant to be a strict weak ordering for a fixed sort key. On the
  size column it is not: the difference of two sizes wraps modulo \<open>2 ^ 32\<close> before it is
  read as an \<open>int\<close>. Two files of 0 and of \<open>2 ^ 31\<close> bytes each compare as less than the
  other, and of three files of 0, \<open>0x5FFF6000\<close> and \<open>0xBFFEC000\<close> bytes the first is less than
  the second and the second less than the third, but the first greater than the third.
\<close>

theorem CompareIDs_size_not_an_ordering:
  "CompareIDs s 3 [file_of_size 0] [file_of_size 0x80000000] = S_LESSTHAN
   \<and> CompareIDs s 3 [file_of_size 0x80000000] [file_of_size 0] = S_LESSTHAN
   \<and> CompareIDs s 3 [file_of_size 0] [file_of_size 0x5FFF6000] = S_LESSTHAN
   \<and> CompareIDs s 3 [file_of_size 0x5FFF6000] [file_of_size 0xBFFEC000] = S_LESSTHAN
   \<and> CompareIDs s 3 [file_of_size 0] [file_of_size 0xBFFEC000] = S_GREATERTHAN
   \<and> compare_result S_LESSTHAN < 0 \<and> 0 < compare_result S_GREATERTHAN"
  by (simp add: CompareIDs_def IL_defs PT_defs world_defs hr_defs LOWORD_def
      GENERICSHELLVIEWCOLUMNS_def MAKE_COMPARE_HRESULT_def compare_result_def)

text \<open>
  What holds of the ordering on every column: for a valid column a folder compares as less
  than a non-folder, and the non-folder as greater than the folder.
\<close>

lemma CompareIDs_folder_first:
  assumes "ILGetFileStructW p1 = Some n1" and "ILGetFileStructW p2 = Some n2"
    and "LOWORD lParam < GENERICSHELLVIEWCOLUMNS"
    and "ILIsFolder p1" and "\<not> ILIsFolder p2"
  shows "compare_result (CompareIDs s lParam p1 p2) < 0 \<and> 0 < compare_result (CompareIDs s lParam p2 p1)"
  using assms
  by (auto simp: CompareIDs_def ILGetFileStructW_def MAKE_COMPARE_HRESULT_def compare_result_def hr_defs
      split: option.splits if_splits)

section \<open>Properties of the enumerator\<close>

text \<open>
  With both allocations succeeding, one pass of the loop body appends the record's
  identifier exactly when the content mask admits the record.
\<close>

lemma Initialize_entry_admits:
  assumes "SHAlloc_pidl s fd" and "\<And>p. SHAlloc_node s p"
  shows "Initialize_entry s grf fd lst
           = (True, lst @ (if mask_admits grf fd then [[find_data_item s fd]] else []))"
  using assms
  by (auto simp: Initialize_entry_def mask_admits_def is_hidden_def is_directory_def
      AddToEnumList_def ILCreateFromFindDataW_def)

lemma Initialize_loop_complete:
  assumes "\<And>fd. fd \<in> set (e # es) \<Longrightarrow> SHAlloc_pidl s fd" and "\<And>p. SHAlloc_node s p"
  shows "Initialize_loop s grf e (FindHandle es err) lst
           = (err = ERROR_NO_MORE_FILES,
              lst @ map (\<lambda>fd. [find_data_item s fd]) (filter (mask_admits grf) (e # es)))"
  using assms
proof (induction es arbitrary: e lst)
  case Nil
  then show ?case by (simp add: Initialize_entry_admits)
next
  case (Cons x xs)
  have "Initialize_loop s grf x (FindHandle xs err) lst'
      = (err = ERROR_NO_MORE_FILES,
         lst' @ map (\<lambda>fd. [find_data_item s fd]) (filter (mask_admits grf) (x # xs)))" for lst'
    using Cons.prems by (intro Cons.IH) auto
  then show ?case using Cons.prems
    by (simp add: Initialize_entry_admits)
qed

text \<open>
  The buffer of the search pattern: a path of at most 255 characters always fits, and a
  non-empty path whose pattern does not fit makes \<open>Initialize\<close> overrun \<open>szPath\<close>.
\<close>

lemma Initialize_szPath_fits:
  assumes "length path \<le> 255"
  shows "length (PathAddBackslashW path @ ''*.*'') < MAX_PATH"
  using assms by (simp add: PathAddBackslashW_def MAX_PATH_def)

lemma Initialize_overruns_szPath:
  assumes "path \<noteq> []" and "MAX_PATH \<le> length (PathAddBackslashW path @ ''*.*'')"
  shows "Initialize s (Some path) grf = None"
  using assms by (simp add: Initialize_def Initialize_szPath_def)

text \<open>
  Claim C4. For every directory scan (of a path whose search pattern fits the buffer, and
  whose allocations succeed), \<open>Initialize\<close> returns and the enumeration list holds exactly
  the scanned records that the content mask admits, in scan order: a hidden record only
  with the hidden-inclusion bit, a directory only if folders are requested and its name is
  neither \<open>.\<close> nor \<open>..\<close>, any other record only if non-folders are requested.
\<close>

theorem Initialize_lists_admitted_entries:
  assumes "path \<noteq> []"
    and "length (PathAddBackslashW path @ ''*.*'') < MAX_PATH"
    and "\<forall>fd \<in> set (scanned s path). SHAlloc_pidl s fd"
    and "\<forall>p. SHAlloc_node s p"
  shows "map_option snd (Initialize s (Some path) grf)
           = Some (map (\<lambda>fd. [find_data_item s fd])
                     (filter (mask_admits grf) (scanned s path)))"
proof -
  have pat: "Initialize_szPath path = Some (PathAddBackslashW path @ ''*.*'')"
    using assms(2) by (simp add: Initialize_szPath_def)
  show ?thesis
  proof (cases "FindFirstFileW s (PathAddBackslashW path @ ''*.*'')")
    case (Inl err)
    with assms(1) pat show ?thesis
      by (simp add: Initialize_def scanned_def)
  next
    case (Inr first)
    obtain e es err where first: "first = (e, FindHandle es err)"
      by (cases first, cases "snd first") auto
    have "Initialize_loop s grf e (FindHandle es err) []
        = (err = ERROR_NO_MORE_FILES,
           [] @ map (\<lambda>fd. [find_data_item s fd]) (filter (mask_admits grf) (e # es)))"
      using assms(3,4) Inr first by (intro Initialize_loop_complete) (auto simp: scanned_def)
    with assms(1) pat Inr first show ?thesis
      by (simp add: Initialize_def scanned_def)
  qed
qed

text \<open>
  The scenario of the specification: of the five records of \<open>D\<close>, the folder \<open>Sub\<close> and the
  file \<open>Doc.txt\<close> are listed, in scan order.
\<close>

theorem Initialize_lists_admitted_entries_witness:
  "path_D \<noteq> [] \<and> length (PathAddBackslashW path_D @ ''*.*'') < MAX_PATH
   \<and> scanned sys0 path_D = [fd_dot, fd_dotdot, fd_Sub, fd_Doc, fd_Hidden]
   \<and> filter (mask_admits (SHCONTF_FOLDERS OR SHCONTF_NONFOLDERS)) (scanned sys0 path_D)
       = [fd_Sub, fd_Doc]
   \<and> map_option snd (Initialize sys0 (Some path_D) (SHCONTF_FOLDERS OR SHCONTF_NONFOLDERS))
       = Some [[item_Sub], [item_Doc]]"
proof -
  have p: "path_D \<noteq> []"
    by (simp add: path_D_def)
  have l: "length (PathAddBackslashW path_D @ ''*.*'') < MAX_PATH"
    by (simp add: path_D_def PathAddBackslashW_def MAX_PATH_def)
  have sc: "scanned sys0 path_D = [fd_dot, fd_dotdot, fd_Sub, fd_Doc, fd_Hidden]"
    by (simp add: scanned_def sys0_def path_D_def PathAddBackslashW_def MAX_PATH_def)
  have a: "\<forall>fd \<in> set (scanned sys0 path_D). SHAlloc_pidl sys0 fd"
    by (simp add: sys0_def)
  have n: "\<forall>p. SHAlloc_node sys0 p"
    by (simp add: sys0_def)
  have flt: "filter (mask_admits (SHCONTF_FOLDERS OR SHCONTF_NONFOLDERS))
        [fd_dot, fd_dotdot, fd_Sub, fd_Doc, fd_Hidden] = [fd_Sub, fd_Doc]"
    by (simp add: mask_admits_def is_hidden_def is_directory_def attr_defs fd_dot_def
        fd_dotdot_def fd_Sub_def fd_Doc_def fd_Hidden_def)
  have items: "find_data_item sys0 fd_Sub = item_Sub" "find_data_item sys0 fd_Doc = item_Doc"
    by (simp_all add: find_data_item_def sys0_def fd_Sub_def fd_Doc_def item_Sub_def
        item_Doc_def attr_defs PT_defs)
  from Initialize_lists_admitted_entries
         [OF p l a n, of "SHCONTF_FOLDERS OR SHCONTF_NONFOLDERS"] p l sc flt items
  show ?thesis
    by simp
qed

text \<open>
  Claim C9. A scan that fails with an error other than "no more files" is meant to make the
  enumeration fail. When \<open>FindNextFileW\<close> fails with error 21 after the first record,
  \<open>Initialize\<close> returns \<open>FALSE\<close>, which as the \<open>HRESULT\<close> it is declared to return is \<open>S_OK\<close>,
  and the record scanned before stays in the list; when \<open>FindFirstFileW\<close> itself fails
  with error 5, \<open>Initialize\<close> returns \<open>TRUE\<close> with an empty list.
\<close>

theorem Initialize_scan_error_not_reported:
  "Initialize sys0 (Some path_E) (SHCONTF_FOLDERS OR SHCONTF_NONFOLDERS)
     = Some (FALSE, [[item_Doc]])
   \<and> FALSE = S_OK \<and> SUCCEEDED FALSE \<and> \<not> FAILED FALSE
   \<and> FindFirstFileW sys0 (PathAddBackslashW path_F @ ''*.*'') = Inl 5
   \<and> Initialize sys0 (Some path_F) (SHCONTF_FOLDERS OR SHCONTF_NONFOLDERS)
       = Some (TRUE, [])
   \<and> SUCCEEDED TRUE"
  by (simp add: Initialize_def Initialize_szPath_def Initialize_entry_def AddToEnumList_def
      ILCreateFromFindDataW_def find_data_item_def PathAddBackslashW_def MAX_PATH_def
      world_defs hr_defs PT_defs attr_defs)

section \<open>Properties of parsing\<close>

text \<open>
  Claim C5. \<open>ParseDisplayName\<close> returns \<open>E_INVALIDARG\<close> when the text is \<open>NULL\<close>, and also for
  the empty string, for which it stores 0 in \<open>*pchEaten\<close> when the caller passed that
  pointer and leaves \<open>*ppidl\<close> \<open>NULL\<close>.
\<close>

theorem ParseDisplayName_null_or_empty:
  "hr_of (ParseDisplayName s this pbc None pchEaten ppidl pdwAttributes) = E_INVALIDARG
   \<and> hr_of (ParseDisplayName s this pbc (Some []) pchEaten ppidl pdwAttributes) = E_INVALIDARG
   \<and> pchEaten_of (ParseDisplayName s this pbc (Some []) (Some n) True pdwAttributes) = Some 0
   \<and> ppidl_of (ParseDisplayName s this pbc (Some []) pchEaten ppidl pdwAttributes) = None"
  by (simp add: ParseDisplayName_def)

text \<open>
  \<open>GetNextElementW\<close> on a text whose first segment is followed by a separator.
\<close>

lemma GetNextElementW_split:
  assumes "CHR 0x5C \<notin> set seg"
  shows "GetNextElementW (seg @ CHR 0x5C # rest) MAX_PATH = (lstrcpynW seg MAX_PATH, Some rest)"
proof -
  have tw: "takeWhile (\<lambda>c. c \<noteq> CHR 0x5C) (seg @ CHR 0x5C # rest) = seg"
    using assms by (induction seg) auto
  have dw: "dropWhile (\<lambda>c. c \<noteq> CHR 0x5C) (seg @ CHR 0x5C # rest) = CHR 0x5C # rest"
    using assms by (induction seg) auto
  show ?thesis
    unfolding GetNextElementW_def Let_def tw dw
    by (auto simp: lstrcpynW_def MAX_PATH_def)
qed

lemma lstrcpynW_idem: "lstrcpynW (lstrcpynW x n) n = lstrcpynW x n"
  by (simp add: lstrcpynW_def)

text \<open>
  Claim C3. When the bind context supplies find data (and the identifier can be
  allocated), the identifier of a segment is made from that data and the segment's name,
  and as another segment follows, its type byte is set to \<open>PT_FOLDER\<close> whatever the find
  data says, so it is a folder; that identifier is what the rest of the text is parsed
  under, and nothing of this depends on what the file system holds.
\<close>

theorem ParseDisplayName_bind_data_forces_folder:
  assumes "GetObjectParam ctx = BindData r wfd" and "SUCCEEDED r"
    and "CHR 0x5C \<notin> set seg" and "rest \<noteq> []"
    and "SHAlloc_pidl s (wfd\<lparr>cFileName := lstrcpynW seg MAX_PATH\<rparr>)"
  shows "ParseDisplayName_element s this (Some ctx) (lstrcpynW seg MAX_PATH) (Some rest)
           = (S_OK, Some [(find_data_item s (wfd\<lparr>cFileName := lstrcpynW seg MAX_PATH\<rparr>))
                            \<lparr>ptype := PT_FOLDER\<rparr>])
         \<and> ILIsFolder [(find_data_item s (wfd\<lparr>cFileName := lstrcpynW seg MAX_PATH\<rparr>))
                            \<lparr>ptype := PT_FOLDER\<rparr>]
         \<and> ParseDisplayName s this (Some ctx) (Some (seg @ CHR 0x5C # rest)) pchEaten True
              pdwAttributes
           = (case SHELL32_ParseNextElement s
                     [(find_data_item s (wfd\<lparr>cFileName := lstrcpynW seg MAX_PATH\<rparr>))
                        \<lparr>ptype := PT_FOLDER\<rparr>]
                     rest (case pchEaten of None \<Rightarrow> None | Some _ \<Rightarrow> Some 0) pdwAttributes of
                (hr', pidlTemp', eaten', attrs') \<Rightarrow>
                  \<lparr>hr_of = hr', ppidl_of = (if SUCCEEDED hr' then pidlTemp' else None),
                   pchEaten_of = eaten', pdwAttributes_of = attrs'\<rparr>)
         \<and> (\<forall>f g. ParseDisplayName (s\<lparr>ILCreateFromPathW := f, FindFirstFileW := g\<rparr>) this
                     (Some ctx) (Some (seg @ CHR 0x5C # rest)) pchEaten True pdwAttributes
                 = ParseDisplayName s this (Some ctx) (Some (seg @ CHR 0x5C # rest)) pchEaten True
                     pdwAttributes)"
proof -
  let ?fd = "wfd\<lparr>cFileName := lstrcpynW seg MAX_PATH\<rparr>"
  let ?txt = "seg @ CHR 0x5C # rest"
  have ok: "SUCCEEDED S_OK" by (simp add: hr_defs)
  have synth: "SHELL32_CreatePidlFromBindCtx s' (Some ctx) (lstrcpynW seg MAX_PATH)
      = Some [find_data_item s' ?fd]" if "SHAlloc_pidl s' ?fd" for s' :: sys
    using assms(1,2) that
    by (simp add: SHELL32_CreatePidlFromBindCtx_def ILCreateFromFindDataW_def lstrcpynW_idem)
  have elem: "ParseDisplayName_element s' this (Some ctx) (lstrcpynW seg MAX_PATH) (Some rest)
      = (S_OK, Some [(find_data_item s' ?fd)\<lparr>ptype := PT_FOLDER\<rparr>])"
    if "SHAlloc_pidl s' ?fd" for s' :: sys
    using synth [OF that] by (simp add: ParseDisplayName_element_def set_abID0_def)
  have fold: "ILIsFolder [(find_data_item s ?fd)\<lparr>ptype := PT_FOLDER\<rparr>]"
    by (simp add: ILIsFolder_def ILGetDataPointer_def)
  have whole: "ParseDisplayName s' this (Some ctx) (Some ?txt) pchEaten True pdwAttributes
      = (case SHELL32_ParseNextElement s' [(find_data_item s' ?fd)\<lparr>ptype := PT_FOLDER\<rparr>]
                 rest (case pchEaten of None \<Rightarrow> None | Some _ \<Rightarrow> Some 0) pdwAttributes of
           (hr', pidlTemp', eaten', attrs') \<Rightarrow>
             \<lparr>hr_of = hr', ppidl_of = (if SUCCEEDED hr' then pidlTemp' else None),
              pchEaten_of = eaten', pdwAttributes_of = attrs'\<rparr>)"
    if "SHAlloc_pidl s' ?fd" for s' :: sys
    using assms(4) ok
    by (simp add: ParseDisplayName_def GetNextElementW_split [OF assms(3)] elem [OF that])
  have indep: "ParseDisplayName (s\<lparr>ILCreateFromPathW := f, FindFirstFileW := g\<rparr>) this
        (Some ctx) (Some ?txt) pchEaten True pdwAttributes
      = ParseDisplayName s this (Some ctx) (Some ?txt) pchEaten True pdwAttributes" for f g
  proof -
    have a': "SHAlloc_pidl (s\<lparr>ILCreateFromPathW := f, FindFirstFileW := g\<rparr>) ?fd"
      using assms(5) by simp
    show ?thesis
      unfolding whole [OF a'] whole [OF assms(5)]
      by (simp add: find_data_item_def)
  qed
  from elem [OF assms(5)] fold whole [OF assms(5)] indep show ?thesis
    by blast
qed

text \<open>
  The scenario of the specification: \<open>B\<close> is described by bind data of a plain file and
  \<open>C\<close> follows it, so the identifier of \<open>B\<close> is made a folder, and the parse then fails
  below it with "not found".
\<close>

theorem ParseDisplayName_bind_data_forces_folder_witness:
  "GetObjectParam ctx_file = BindData S_OK fd_Doc \<and> SUCCEEDED S_OK
   \<and> CHR 0x5C \<notin> set ''B'' \<and> ''C'' \<noteq> []
   \<and> dwFileAttributes fd_Doc AND FILE_ATTRIBUTE_DIRECTORY = 0
   \<and> ParseDisplayName_element sys0 folder_D (Some ctx_file) ''B'' (Some ''C'')
       = (S_OK, Some [item_Doc\<lparr>szNames := ''B'', wszName := Some ''B'', ptype := PT_FOLDER\<rparr>])
   \<and> ILIsFolder [item_Doc\<lparr>szNames := ''B'', wszName := Some ''B'', ptype := PT_FOLDER\<rparr>]
   \<and> ParseDisplayName sys0 folder_D (Some ctx_file) (Some (''B'' @ CHR 0x5C # ''C'')) (Some 7)
        True None
       = \<lparr>hr_of = ERROR_FILE_NOT_FOUND_hr, ppidl_of = None, pchEaten_of = Some 0,
          pdwAttributes_of = None\<rparr>"
proof -
  have h1: "GetObjectParam ctx_file = BindData S_OK fd_Doc" by (simp add: ctx_file_def)
  have h2: "SUCCEEDED S_OK" by (simp add: hr_defs)
  have h3: "CHR 0x5C \<notin> set ''B''" by simp
  have h4: "''C'' \<noteq> []" by simp
  have h5: "SHAlloc_pidl sys0 (fd_Doc\<lparr>cFileName := lstrcpynW ''B'' MAX_PATH\<rparr>)"
    by (simp add: sys0_def)
  have isfile: "dwFileAttributes fd_Doc AND FILE_ATTRIBUTE_DIRECTORY = 0"
    by (simp add: fd_Doc_def attr_defs)
  have nm: "lstrcpynW ''B'' MAX_PATH = ''B''" by (simp add: lstrcpynW_def MAX_PATH_def)
  have it: "find_data_item sys0 (fd_Doc\<lparr>cFileName := ''B''\<rparr>)
      = item_Doc\<lparr>szNames := ''B'', wszName := Some ''B''\<rparr>"
    by (simp add: find_data_item_def sys0_def fd_Doc_def item_Doc_def attr_defs PT_defs)
  have nx: "SHELL32_ParseNextElement sys0 p ''C'' (Some 0) None
      = (ERROR_FILE_NOT_FOUND_hr, None, Some 0, None)" for p
    by (simp add: sys0_def)
  have nf: "\<not> SUCCEEDED ERROR_FILE_NOT_FOUND_hr" by (simp add: hr_defs)
  from ParseDisplayName_bind_data_forces_folder [OF h1 h2 h3 h4 h5, of folder_D "Some 7" None]
    h1 h2 h3 h4 isfile nf
  show ?thesis
    by (simp add: nm it nx)
qed

section \<open>Properties of renaming\<close>

text \<open>
  Claim C7, as stated, has the rename to the same path succeed whenever an identifier is
  asked for. The identifier \<open>Gone.txt\<close> is renamed to its own displayed name \<open>Gone\<close>;
  source and destination path are equal, but the file is no longer there, so creating the
  identifier from the path fails and \<open>SetNameOf\<close> returns that failure.
\<close>

theorem SetNameOf_same_path_can_fail:
  "ILGetFileStructW [item_Gone] = Some ''Gone.txt''
   \<and> SetNameOf_szSrc sys0 folder_D ''Gone.txt''
       = SetNameOf_szDest sys0 folder_D (SetNameOf_szSrc sys0 folder_D ''Gone.txt'') ''Gone''
           SHGDN_NORMAL
   \<and> sn_hr (SetNameOf sys0 folder_D [item_Gone] ''Gone'' SHGDN_NORMAL True) = ERROR_FILE_NOT_FOUND_hr
   \<and> \<not> SUCCEEDED (sn_hr (SetNameOf sys0 folder_D [item_Gone] ''Gone'' SHGDN_NORMAL True))
   \<and> sn_pPidlOut (SetNameOf sys0 folder_D [item_Gone] ''Gone'' SHGDN_NORMAL True) = None"
  by (simp add: SetNameOf_def SetNameOf_szSrc_def SetNameOf_szDest_def SetNameOf_szDest0_def
      SHELL_FS_HideExtension_def PathFindExtensionW_def lstrcpynW_def MAX_PATH_def
      SHGDN_NORMAL_def SHGDN_INFOLDER_def SHGDN_FORPARSING_def IL_defs PT_defs world_defs hr_defs)

text \<open>
  Claim C7, amended. When the source path and the destination path are equal, \<open>SetNameOf\<close>
  renames nothing and notifies nobody. Without a request for the identifier it returns
  \<open>S_OK\<close>; with one it returns the status and the identifier of creating an identifier
  from that unchanged path.
\<close>

theorem SetNameOf_same_path_no_rename:
  assumes "ILGetFileStructW pidl = Some name"
    and "SetNameOf_szSrc s this name
           = SetNameOf_szDest s this (SetNameOf_szSrc s this name) lpName dwFlags"
  shows "SetNameOf s this pidl lpName dwFlags pPidlOut
           = (if pPidlOut
              then \<lparr>sn_hr = fst (ILCreateFromPathW s (SetNameOf_szSrc s this name)),
                    sn_pPidlOut = snd (ILCreateFromPathW s (SetNameOf_szSrc s this name)),
                    sn_events = []\<rparr>
              else \<lparr>sn_hr = S_OK, sn_pPidlOut = None, sn_events = []\<rparr>)"
  using assms by (simp add: SetNameOf_def Let_def)

theorem SetNameOf_same_path_no_rename_witness:
  "ILGetFileStructW [item_Doc] = Some ''Doc.txt''
   \<and> SetNameOf_szSrc sys0 folder_D ''Doc.txt''
       = SetNameOf_szDest sys0 folder_D (SetNameOf_szSrc sys0 folder_D ''Doc.txt'') ''Doc''
           SHGDN_NORMAL
   \<and> SetNameOf sys0 folder_D [item_Doc] ''Doc'' SHGDN_NORMAL True
       = \<lparr>sn_hr = S_OK, sn_pPidlOut = Some [item_Doc], sn_events = []\<rparr>
   \<and> SetNameOf sys0 folder_D [item_Doc] ''Doc'' SHGDN_NORMAL False
       = \<lparr>sn_hr = S_OK, sn_pPidlOut = None, sn_events = []\<rparr>"
proof -
  have h1: "ILGetFileStructW [item_Doc] = Some ''Doc.txt''"
    by (simp add: IL_defs PT_defs item_Doc_def)
  have h2: "SetNameOf_szSrc sys0 folder_D ''Doc.txt''
       = SetNameOf_szDest sys0 folder_D (SetNameOf_szSrc sys0 folder_D ''Doc.txt'') ''Doc''
           SHGDN_NORMAL"
    by (simp add: SetNameOf_szSrc_def SetNameOf_szDest_def SetNameOf_szDest0_def
      SHELL_FS_HideExtension_def PathFindExtensionW_def lstrcpynW_def MAX_PATH_def
      SHGDN_NORMAL_def SHGDN_INFOLDER_def SHGDN_FORPARSING_def world_defs)
  have cr: "ILCreateFromPathW sys0 (SetNameOf_szSrc sys0 folder_D ''Doc.txt'') = (S_OK, Some [item_Doc])"
    by (simp add: SetNameOf_szSrc_def world_defs)
  from SetNameOf_same_path_no_rename [OF h1 h2, of True] SetNameOf_same_path_no_rename [OF h1 h2, of False] h1 h2 show ?thesis
    by (simp add: cr)
qed

text \<open>
  Claim C8, as stated, has the hidden extension appended only to a destination without an
  extension. With extensions hidden, \<open>Doc.txt\<close> is renamed to \<open>Doc.doc\<close>: the destination
  carries the extension \<open>.doc\<close> and still gets \<open>.txt\<close> appended, and the file is moved to
  \<open>Doc.doc.txt\<close>.
\<close>

theorem SetNameOf_extension_appended_to_extension:
  "SHGDN_NORMAL AND SHGDN_FORPARSING = 0
   \<and> SHELL_FS_HideExtension sys0 (SetNameOf_szSrc sys0 folder_D ''Doc.txt'')
   \<and> PathFindExtensionW (SetNameOf_szDest0 sys0 folder_D ''Doc.doc'' SHGDN_NORMAL) = ''.doc''
   \<and> SetNameOf_szDest sys0 folder_D (SetNameOf_szSrc sys0 folder_D ''Doc.txt'') ''Doc.doc''
        SHGDN_NORMAL
       = path_D @ CHR 0x5C # ''Doc.doc.txt''
   \<and> sn_events (SetNameOf sys0 folder_D [item_Doc] ''Doc.doc'' SHGDN_NORMAL False)
       = [MoveFileW_call (path_D @ CHR 0x5C # ''Doc.txt'') (path_D @ CHR 0x5C # ''Doc.doc.txt''),
          SHChangeNotify_call SHCNE_RENAMEITEM (path_D @ CHR 0x5C # ''Doc.txt'')
            (path_D @ CHR 0x5C # ''Doc.doc.txt'')]"
  by (simp add: SetNameOf_def SetNameOf_szSrc_def SetNameOf_szDest_def SetNameOf_szDest0_def
      SHELL_FS_HideExtension_def PathFindExtensionW_def lstrcpynW_def MAX_PATH_def Let_def
      SHGDN_NORMAL_def SHGDN_INFOLDER_def SHGDN_FORPARSING_def IL_defs PT_defs world_defs hr_defs)

text \<open>
  Claim C8, amended. When the extension of the source is being hidden (the parsing flag is
  absent and \<open>SHELL_FS_HideExtension\<close> holds of the source path), the destination path is
  the one built from the new name followed by the extension of the source path, cut to the
  buffer, whether or not the new name carries an extension of its own.
\<close>

theorem SetNameOf_reappends_hidden_extension:
  assumes "dwFlags AND SHGDN_FORPARSING = 0" and "SHELL_FS_HideExtension s szSrc"
  shows "SetNameOf_szDest s this szSrc lpName dwFlags
           = SetNameOf_szDest0 s this lpName dwFlags
             @ lstrcpynW (PathFindExtensionW szSrc)
                 (MAX_PATH - length (SetNameOf_szDest0 s this lpName dwFlags))"
  using assms by (simp add: SetNameOf_szDest_def Let_def lstrcpynW_def)

theorem SetNameOf_reappends_hidden_extension_witness:
  "SHGDN_NORMAL AND SHGDN_FORPARSING = 0
   \<and> SHELL_FS_HideExtension sys0 (path_D @ CHR 0x5C # ''Doc.txt'')
   \<and> SetNameOf_szDest sys0 folder_D (path_D @ CHR 0x5C # ''Doc.txt'') ''Doc.doc'' SHGDN_NORMAL
       = path_D @ CHR 0x5C # ''Doc.doc.txt''
   \<and> SetNameOf_szDest sys0 folder_D (path_D @ CHR 0x5C # ''Doc.txt'') ''New'' SHGDN_NORMAL
       = path_D @ CHR 0x5C # ''New.txt''"
proof -
  have h1: "SHGDN_NORMAL AND SHGDN_FORPARSING = 0"
    by (simp add: SHGDN_NORMAL_def)
  have h2: "SHELL_FS_HideExtension sys0 (path_D @ CHR 0x5C # ''Doc.txt'')"
    by (simp add: SHELL_FS_HideExtension_def sys0_def)
  have ext: "PathFindExtensionW (path_D @ CHR 0x5C # ''Doc.txt'') = ''.txt''"
    by (simp add: PathFindExtensionW_def path_D_def)
  have d1: "SetNameOf_szDest0 sys0 folder_D ''Doc.doc'' SHGDN_NORMAL
      = path_D @ CHR 0x5C # ''Doc.doc''"
    and d2: "SetNameOf_szDest0 sys0 folder_D ''New'' SHGDN_NORMAL = path_D @ CHR 0x5C # ''New''"
    by (simp_all add: SetNameOf_szDest0_def SHGDN_NORMAL_def sys0_def folder_D_def)
  have r1: "SetNameOf_szDest sys0 folder_D (path_D @ CHR 0x5C # ''Doc.txt'') ''Doc.doc''
        SHGDN_NORMAL = path_D @ CHR 0x5C # ''Doc.doc.txt''"
    unfolding SetNameOf_reappends_hidden_extension [OF h1 h2, of folder_D "''Doc.doc''"] d1 ext
    by (simp add: lstrcpynW_def MAX_PATH_def path_D_def)
  have r2: "SetNameOf_szDest sys0 folder_D (path_D @ CHR 0x5C # ''Doc.txt'') ''New''
        SHGDN_NORMAL = path_D @ CHR 0x5C # ''New.txt''"
    unfolding SetNameOf_reappends_hidden_extension [OF h1 h2, of folder_D "''New''"] d2 ext
    by (simp add: lstrcpynW_def MAX_PATH_def path_D_def)
  from h1 h2 r1 r2 show ?thesis
    by simp
qed

end
